theory Spec2Isabelle
  imports Complex_Main "HOL-Library.Word"
begin

unbundle bit_operations_syntax

section \<open>Numeric values of the value type T\<close>

text \<open>
  The entities are templates over a floating value type \<open>T\<close> (\<open>float\<close> by default).
  A value is a finite number, one of the two infinities, or NaN. Finite arithmetic is
  exact (rounding and the sign of zero are not part of the model); the special values
  follow IEEE 754: a non-zero finite number divided by zero is an infinity, zero times
  an infinity is NaN, and NaN propagates.
\<close>

datatype fp = Fin real | PInf | NInf | NaN

fun fneg :: "fp \<Rightarrow> fp" where
  "fneg (Fin a) = Fin (- a)"
| "fneg PInf = NInf"
| "fneg NInf = PInf"
| "fneg NaN = NaN"

fun fadd :: "fp \<Rightarrow> fp \<Rightarrow> fp" where
  "fadd (Fin a) (Fin b) = Fin (a + b)"
| "fadd (Fin a) PInf = PInf"
| "fadd (Fin a) NInf = NInf"
| "fadd PInf (Fin b) = PInf"
| "fadd NInf (Fin b) = NInf"
| "fadd PInf PInf = PInf"
| "fadd NInf NInf = NInf"
| "fadd PInf NInf = NaN"
| "fadd NInf PInf = NaN"
| "fadd NaN y = NaN"
| "fadd x NaN = NaN"

definition inf_signed :: "bool \<Rightarrow> fp" where
  "inf_signed positive = (if positive then PInf else NInf)"

fun fmul :: "fp \<Rightarrow> fp \<Rightarrow> fp" where
  "fmul (Fin a) (Fin b) = Fin (a * b)"
| "fmul (Fin a) PInf = (if a = 0 then NaN else inf_signed (0 < a))"
| "fmul (Fin a) NInf = (if a = 0 then NaN else inf_signed (a < 0))"
| "fmul PInf (Fin b) = (if b = 0 then NaN else inf_signed (0 < b))"
| "fmul NInf (Fin b) = (if b = 0 then NaN else inf_signed (b < 0))"
| "fmul PInf PInf = PInf"
| "fmul NInf NInf = PInf"
| "fmul PInf NInf = NInf"
| "fmul NInf PInf = NInf"
| "fmul NaN y = NaN"
| "fmul x NaN = NaN"

fun fdiv :: "fp \<Rightarrow> fp \<Rightarrow> fp" where
  "fdiv (Fin a) (Fin b) =
     (if b = 0 then (if a = 0 then NaN else inf_signed (0 < a)) else Fin (a / b))"
| "fdiv (Fin a) PInf = Fin 0"
| "fdiv (Fin a) NInf = Fin 0"
| "fdiv PInf (Fin b) = inf_signed (0 \<le> b)"
| "fdiv NInf (Fin b) = inf_signed (b < 0)"
| "fdiv PInf PInf = NaN"
| "fdiv NInf NInf = NaN"
| "fdiv PInf NInf = NaN"
| "fdiv NInf PInf = NaN"
| "fdiv NaN y = NaN"
| "fdiv x NaN = NaN"

fun fsqrt :: "fp \<Rightarrow> fp" where
  "fsqrt (Fin a) = (if a < 0 then NaN else Fin (sqrt a))"
| "fsqrt PInf = PInf"
| "fsqrt NInf = NaN"
| "fsqrt NaN = NaN"

text \<open>
  \<open>std::cos\<close>, \<open>std::sin\<close>, \<open>std::abs\<close>, the comparison \<open><\<close> and \<open>std::atan2\<close>. The
  cosine and sine of an infinity are NaN, every comparison with NaN is false, and
  \<open>atan2\<close> takes the quadrant from the signs of both arguments (zero counts as
  positive zero).
\<close>

fun fcos :: "fp \<Rightarrow> fp" where
  "fcos (Fin a) = Fin (cos a)"
| "fcos x = NaN"

fun fsin :: "fp \<Rightarrow> fp" where
  "fsin (Fin a) = Fin (sin a)"
| "fsin x = NaN"





section \<open>The generic entity (entity.hpp)\<close>

text \<open>
  \<open>entity<A, T, E...>\<close>: the blade tags \<open>E...\<close> are the static array \<open>elements\<close>
  (each a \<open>uint8_t\<close>), the coefficients are the array \<open>data_\<close> (here \<open>data_e\<close>) of
  the same length.
\<close>

record entity =
  elements :: "8 word list"
  data_e :: "fp list"

text \<open>
  The loop of \<open>select(uint8_t e) const\<close>. The counter \<open>i\<close> is a \<open>uint8_t\<close>: it is
  compared with \<open>elements.size()\<close> as an unsigned number and \<open>++i\<close> wraps from 255
  to 0. The loop need not terminate, so the result is an option: \<open>None\<close> stands for a
  loop that never returns. \<open>return {}\<close> is the value-initialised \<open>T\<close>, zero.
\<close>

partial_function (option) select_loop ::
  "8 word list \<Rightarrow> fp list \<Rightarrow> 8 word \<Rightarrow> 8 word \<Rightarrow> fp option" where
  "select_loop els ds e i =
     (if unat i \<noteq> length els
      then (if els ! unat i = e then Some (ds ! unat i)
            else select_loop els ds e (i + 1))
      else Some (Fin 0))"

definition select :: "entity \<Rightarrow> 8 word \<Rightarrow> fp option" where
  "select en e = select_loop (elements en) (data_e en) e 0"

text \<open>\<open>select<S...>()\<close> is \<open>{select(S)...}\<close>: one call for each tag, in order.\<close>

fun select_pack :: "entity \<Rightarrow> 8 word list \<Rightarrow> fp list option" where
  "select_pack en [] = Some []"
| "select_pack en (s # ss) =
     (case select en s of
        None \<Rightarrow> None
      | Some v \<Rightarrow> (case select_pack en ss of None \<Rightarrow> None | Some vs \<Rightarrow> Some (v # vs)))"

text \<open>
  The value that the loop is meant to find, by recursion on the two arrays: the
  coefficient beside the first tag equal to \<open>e\<close>, and zero when there is none.
\<close>

fun first_match :: "8 word list \<Rightarrow> fp list \<Rightarrow> 8 word \<Rightarrow> fp" where
  "first_match [] ds e = Fin 0"
| "first_match (t # ts) ds e = (if t = e then hd ds else first_match ts (tl ds) e)"

text \<open>\<open>get(size_t)\<close> of the generic entity: \<open>return {}\<close>.\<close>

definition entity_get :: "entity \<Rightarrow> nat \<Rightarrow> fp" where
  "entity_get en i = Fin 0"

section \<open>Symbolic multivectors\<close>

text \<open>
  Modelled from the spec: the declarations of \<open>rat\<close>, \<open>ind\<close>, \<open>mon\<close>, \<open>term\<close>,
  \<open>mv_size\<close> and \<open>mv\<close> (expression.hpp) are not among the sources; the records below
  follow the spec's data model, field by field in the order of the brace initialisers
  of entity.hpp and pga.hpp.
  \<^item> \<open>ind{id, degree}\<close>: an indeterminate is the id of a run-time input with its
    exponent. Ids are \<open>uint32_t\<close>, so \<open>id + N\<close> wraps.
  \<^item> \<open>mon{q, degree, count, ind_offset}\<close>: a monomial is a rational coefficient, a
    rational weight, and the range of \<open>count\<close> indeterminates that starts at index
    \<open>ind_offset\<close> of the indeterminate list.
  \<^item> \<open>term{count, mon_offset, element}\<close>: a term is the range of \<open>count\<close> monomials
    starting at \<open>mon_offset\<close>, bound to the blade \<open>element\<close>.
  \<^item> \<open>mv_size{ind, mon, term}\<close>: the counters of a multivector.
  \<^item> \<open>mv<A, I, M, T>\<close>: the counters and the three arrays, of capacities \<open>I\<close>, \<open>M\<close>
    and \<open>T\<close>. The lists hold the initialisers that the code writes.
  The constants \<open>one\<close>, \<open>zero\<close>, \<open>minus_one\<close>, \<open>minus_one_half\<close> and \<open>rat{2}\<close> are
  the rationals 1, 0, -1, -1/2 and 2. Counts and offsets (\<open>width_t\<close>) are naturals.
\<close>

record ind_t =
  ind_id :: "32 word"
  ind_degree :: rat

record mon_t =
  q :: rat
  mon_degree :: rat
  mon_count :: nat
  ind_offset :: nat

record term_t =
  term_count :: nat
  mon_offset :: nat
  element :: "8 word"

record mv_size =
  n_ind :: nat
  n_mon :: nat
  n_term :: nat

record mv =
  capacity :: mv_size
  mv_sz :: mv_size
  inds :: "ind_t list"
  mons :: "mon_t list"
  terms :: "term_t list"

abbreviation mk_ind :: "32 word \<Rightarrow> rat \<Rightarrow> ind_t" where
  "mk_ind i d \<equiv> \<lparr>ind_id = i, ind_degree = d\<rparr>"

abbreviation mk_mon :: "rat \<Rightarrow> rat \<Rightarrow> nat \<Rightarrow> nat \<Rightarrow> mon_t" where
  "mk_mon c d n off \<equiv> \<lparr>q = c, mon_degree = d, mon_count = n, ind_offset = off\<rparr>"

abbreviation mk_term :: "nat \<Rightarrow> nat \<Rightarrow> 8 word \<Rightarrow> term_t" where
  "mk_term n off e \<equiv> \<lparr>term_count = n, mon_offset = off, element = e\<rparr>"

abbreviation mk_size :: "nat \<Rightarrow> nat \<Rightarrow> nat \<Rightarrow> mv_size" where
  "mk_size i m t \<equiv> \<lparr>n_ind = i, n_mon = m, n_term = t\<rparr>"

section \<open>Indeterminate expressions of the entities\<close>

text \<open>
  \<open>detail::construct_ie\<close>: the packs \<open>N...\<close> and \<open>E...\<close> are expanded together, and
  \<open>count\<close> is \<open>sizeof...(E)\<close>.
\<close>

definition construct_ie :: "32 word \<Rightarrow> nat list \<Rightarrow> 8 word list \<Rightarrow> mv" where
  "construct_ie idn Ns Es =
     (let count = length Es in
      \<lparr>capacity = mk_size count count count,
       mv_sz = mk_size count count count,
       inds = map (\<lambda>N. mk_ind (idn + of_nat N) 1) Ns,
       mons = map (\<lambda>N. mk_mon 1 1 1 N) Ns,
       terms = map2 (\<lambda>N E. mk_term 1 N E) Ns Es\<rparr>)"

text \<open>\<open>entity<A, T, E...>::ie\<close>, with \<open>std::make_integer_sequence<width_t, sizeof...(E)>\<close>.\<close>

definition entity_ie :: "8 word list \<Rightarrow> 32 word \<Rightarrow> mv" where
  "entity_ie Es idn = construct_ie idn [0..<length Es] Es"

definition entity_ind_count :: "8 word list \<Rightarrow> nat" where
  "entity_ind_count Es = length Es"

text \<open>\<open>scalar<A, T>::ie\<close>, of type \<open>mv<A, 1, 1, 1>\<close>.\<close>

definition scalar_ie :: "32 word \<Rightarrow> mv" where
  "scalar_ie idn =
     \<lparr>capacity = mk_size 1 1 1,
      mv_sz = mk_size 1 1 1,
      inds = [mk_ind idn 1],
      mons = [mk_mon 1 1 0 1],
      terms = [mk_term 1 0 0]\<rparr>"

definition scalar_ind_count :: nat where
  "scalar_ind_count = 1"

text \<open>
  Blades are bit masks over the basis vectors \<open>e0\<close> (bit 0) to \<open>e3\<close> (bit 3):
  \<open>e01 = 0b11 = 3\<close>, \<open>e02 = 0b101 = 5\<close>, \<open>e12 = 0b110 = 6\<close>, \<open>e03 = 0b1001 = 9\<close>,
  \<open>e13 = 0b1010 = 10\<close>, \<open>e23 = 0b1100 = 12\<close>, \<open>e012 = 0b111 = 7\<close>,
  \<open>e013 = 0b1011 = 11\<close>, \<open>e023 = 0b1101 = 13\<close>, \<open>e123 = 0b1110 = 14\<close>,
  \<open>e0123 = 0b1111 = 15\<close>.
\<close>

text \<open>\<open>pga::rotor::ie\<close>, of type \<open>mv<pga_algebra, 8, 4, 4>\<close>.\<close>

definition rotor_ie :: "32 word \<Rightarrow> mv" where
  "rotor_ie idn =
     \<lparr>capacity = mk_size 8 4 4,
      mv_sz = mk_size 7 4 4,
      inds = [mk_ind idn 1, mk_ind (idn + 1) 1, mk_ind (idn + 4) 1, mk_ind (idn + 1) 1,
              mk_ind (idn + 3) 1, mk_ind (idn + 1) 1, mk_ind (idn + 2) 1],
      mons = [mk_mon 1 1 1 0, mk_mon 1 1 1 1, mk_mon (- 1) 2 2 2, mk_mon 1 2 2 3],
      terms = [mk_term 1 0 0, mk_term 1 1 6, mk_term 1 2 10, mk_term 1 3 12]\<rparr>"

definition rotor_ind_count :: nat where
  "rotor_ind_count = 5"

text \<open>\<open>pga::translator::ie\<close>, of type \<open>mv<pga_algebra, 6, 4, 4>\<close>.\<close>

definition translator_ie :: "32 word \<Rightarrow> mv" where
  "translator_ie idn =
     \<lparr>capacity = mk_size 6 4 4,
      mv_sz = mk_size 6 4 4,
      inds = [mk_ind idn 1, mk_ind (idn + 1) 1, mk_ind idn 1, mk_ind (idn + 1) 1,
              mk_ind idn 1, mk_ind (idn + 2) 1],
      mons = [mk_mon 1 0 0 0, mk_mon (- 1 / 2) 2 2 1, mk_mon (- 1 / 2) 2 2 2,
              mk_mon (- 1 / 2) 2 2 3],
      terms = [mk_term 1 0 0, mk_term 1 1 3, mk_term 1 2 5, mk_term 1 3 9]\<rparr>"

definition translator_ind_count :: nat where
  "translator_ind_count = 4"

text \<open>\<open>pga::plane::ie\<close>: \<open>construct_ie\<close> on four indices and the tags of \<open>e0\<close> to \<open>e3\<close>.\<close>

definition plane_ie :: "32 word \<Rightarrow> mv" where
  "plane_ie idn = construct_ie idn [0..<4] [1, 2, 4, 8]"

definition plane_ind_count :: nat where
  "plane_ind_count = 4"

text \<open>\<open>pga::point::ie\<close>, of type \<open>mv<algebra_t, 3, 4, 4>\<close>.\<close>

definition point_ie :: "32 word \<Rightarrow> mv" where
  "point_ie idn =
     \<lparr>capacity = mk_size 3 4 4,
      mv_sz = mk_size 3 4 4,
      inds = [mk_ind (idn + 2) 1, mk_ind (idn + 1) 1, mk_ind idn 1],
      mons = [mk_mon (- 1) 1 1 0, mk_mon 1 1 1 1, mk_mon (- 1) 1 1 2, mk_mon 1 0 0 0],
      terms = [mk_term 1 0 7, mk_term 1 1 11, mk_term 1 2 13, mk_term 1 3 14]\<rparr>"

definition point_ind_count :: nat where
  "point_ind_count = 3"

text \<open>\<open>pga::vector::ie\<close>, of type \<open>mv<algebra_t, 3, 3, 3>\<close>.\<close>

definition vector_ie :: "32 word \<Rightarrow> mv" where
  "vector_ie idn =
     \<lparr>capacity = mk_size 3 3 3,
      mv_sz = mk_size 3 4 4,
      inds = [mk_ind (idn + 2) 1, mk_ind (idn + 1) 1, mk_ind idn 1],
      mons = [mk_mon (- 1) 1 1 0, mk_mon 1 1 1 1, mk_mon (- 1) 1 1 2],
      terms = [mk_term 1 0 7, mk_term 1 1 11, mk_term 1 2 13]\<rparr>"

definition vector_ind_count :: nat where
  "vector_ind_count = 3"

text \<open>\<open>pga::line::ie\<close>, of type \<open>mv<algebra_t, 6, 6, 6>\<close>.\<close>

definition line_ie :: "32 word \<Rightarrow> mv" where
  "line_ie idn =
     \<lparr>capacity = mk_size 6 6 6,
      mv_sz = mk_size 6 6 6,
      inds = [mk_ind (idn + 3) 1, mk_ind (idn + 4) 1, mk_ind (idn + 2) 1,
              mk_ind (idn + 5) 1, mk_ind (idn + 1) 1, mk_ind idn 1],
      mons = [mk_mon 1 1 1 0, mk_mon 1 1 1 1, mk_mon 1 1 1 2, mk_mon 1 1 1 3,
              mk_mon 1 1 1 4, mk_mon 1 1 1 5],
      terms = [mk_term 1 0 3, mk_term 1 1 5, mk_term 1 2 6, mk_term 1 3 9,
               mk_term 1 4 10, mk_term 1 5 12]\<rparr>"

definition line_ind_count :: nat where
  "line_ind_count = 6"

subsection \<open>What an indeterminate expression references\<close>

text \<open>The indeterminates in the range \<open>(count, ind_offset)\<close> of a monomial.\<close>

definition mon_inds :: "mv \<Rightarrow> mon_t \<Rightarrow> ind_t list" where
  "mon_inds m mo = take (mon_count mo) (drop (ind_offset mo) (inds m))"

definition referenced_ids :: "mv \<Rightarrow> 32 word set" where
  "referenced_ids m = set (concat (map (\<lambda>mo. map ind_id (mon_inds m mo)) (mons m)))"

definition ranges_within :: "mv \<Rightarrow> bool" where
  "ranges_within m =
     list_all (\<lambda>mo. ind_offset mo + mon_count mo \<le> length (inds m)) (mons m)"

text \<open>The contiguous ids \<open>id, id + 1, ..., id + n - 1\<close>.\<close>

definition id_range :: "32 word \<Rightarrow> nat \<Rightarrow> 32 word set" where
  "id_range idn n = set (map (\<lambda>k. idn + of_nat k) [0..<n])"

definition ie_ids_ok :: "mv \<Rightarrow> 32 word \<Rightarrow> nat \<Rightarrow> bool" where
  "ie_ids_ok m idn n \<longleftrightarrow> referenced_ids m = id_range idn n \<and> ranges_within m"

text \<open>
  The counters of a multivector agree with what is stored, and fit the capacities.
\<close>

definition mv_counters_ok :: "mv \<Rightarrow> bool" where
  "mv_counters_ok m \<longleftrightarrow>
     n_ind (mv_sz m) = length (inds m) \<and>
     n_mon (mv_sz m) = length (mons m) \<and>
     n_term (mv_sz m) = length (terms m) \<and>
     n_ind (mv_sz m) \<le> n_ind (capacity m) \<and>
     n_mon (mv_sz m) \<le> n_mon (capacity m) \<and>
     n_term (mv_sz m) \<le> n_term (capacity m)"

section \<open>The entities of the projective geometric algebra (pga.hpp)\<close>

text \<open>
  Each entity is a union of an array \<open>data\<close> and a struct of named fields: the record
  has the named fields, and \<open>data\<close> lists them in the order of their declaration.
\<close>

record scalar =
  scalar_value :: fp

record rotor =
  cos_theta :: fp
  sin_theta :: fp
  rotor_x :: fp
  rotor_y :: fp
  rotor_z :: fp

record translator =
  translator_d :: fp
  translator_x :: fp
  translator_y :: fp
  translator_z :: fp

record plane =
  plane_d :: fp
  plane_x :: fp
  plane_y :: fp
  plane_z :: fp

record point =
  point_x :: fp
  point_y :: fp
  point_z :: fp

record vector =
  vector_x :: fp
  vector_y :: fp
  vector_z :: fp

record line =
  dx :: fp
  dy :: fp
  dz :: fp
  mx :: fp
  my :: fp
  mz :: fp

definition point_data :: "point \<Rightarrow> fp list" where
  "point_data p = [point_x p, point_y p, point_z p]"

definition line_data :: "line \<Rightarrow> fp list" where
  "line_data l = [dx l, dy l, dz l, mx l, my l, mz l]"







text \<open>The accessors \<open>get(size_t)\<close>: \<open>return NAN\<close>, and \<open>return {}\<close> for the scalar.\<close>

definition scalar_get :: "scalar \<Rightarrow> nat \<Rightarrow> fp" where
  "scalar_get s i = Fin 0"

definition rotor_get :: "rotor \<Rightarrow> nat \<Rightarrow> fp" where
  "rotor_get r i = NaN"

definition translator_get :: "translator \<Rightarrow> nat \<Rightarrow> fp" where
  "translator_get t i = NaN"

definition plane_get :: "plane \<Rightarrow> nat \<Rightarrow> fp" where
  "plane_get p i = NaN"

definition point_get :: "point \<Rightarrow> nat \<Rightarrow> fp" where
  "point_get p i = NaN"

definition vector_get :: "vector \<Rightarrow> nat \<Rightarrow> fp" where
  "vector_get v i = NaN"

definition line_get :: "line \<Rightarrow> nat \<Rightarrow> fp" where
  "line_get l i = NaN"

text \<open>
  The converting constructor \<open>point(entity)\<close>: the tags selected are
  \<open>0b111, 0b1011, 0b1101, 0b1110\<close>.
\<close>

definition point_of_entity :: "entity \<Rightarrow> point option" where
  "point_of_entity en =
     (case select_pack en [7, 11, 13, 14] of
        None \<Rightarrow> None
      | Some input \<Rightarrow>
          (let w_inv = fdiv (Fin 1) (input ! 3);
               z = fmul (fneg (input ! 0)) w_inv;
               y = fmul (input ! 1) w_inv;
               x = fmul (fneg (input ! 2)) w_inv
           in Some \<lparr>point_x = x, point_y = y, point_z = z\<rparr>))"

text \<open>
  The constructor \<open>line(std::array<T, 6>)\<close> fills \<open>data\<close>, and the converting
  constructor \<open>line(entity)\<close> passes it the coefficients selected by the tags
  \<open>0b11, 0b101, 0b100, 0b1001, 0b1010, 0b1100\<close>. The function \<open>log\<close> builds its line
  from the tags \<open>0b11, 0b101, 0b110, 0b1001, 0b1010, 0b1100\<close>.
\<close>

fun line_of_array :: "fp list \<Rightarrow> line option" where
  "line_of_array [a, b, c, d, e, f] = Some \<lparr>dx = a, dy = b, dz = c, mx = d, my = e, mz = f\<rparr>"
| "line_of_array xs = None"

definition line_select_tags :: "8 word list" where
  "line_select_tags = [3, 5, 4, 9, 10, 12]"

definition log_select_tags :: "8 word list" where
  "log_select_tags = [3, 5, 6, 9, 10, 12]"

definition line_of_entity :: "entity \<Rightarrow> line option" where
  "line_of_entity en =
     (case select_pack en line_select_tags of None \<Rightarrow> None | Some a \<Rightarrow> line_of_array a)"

section \<open>The algebra\<close>

text \<open>
  Modelled from the spec: the construction of the algebra from a metric
  (geometric_algebra.hpp: \<open>metric\<close>, \<open>algebra\<close>) is not among the sources. The spec
  describes it as a metric signature, the counts of basis vectors squaring to +1, -1 and
  0, that yields a blade-product rule \<open>(blade_a, blade_b) -> (sign, result_blade)\<close> and
  the grade of a blade, the number of bits of its mask. Here a metric is the list of
  the squares of its basis vectors, in the order of their bits.

  For \<open>metric<3, 0, 1>\<close> the basis vectors \<open>e1\<close>, \<open>e2\<close>, \<open>e3\<close> (bits 1 to 3) square to
  +1. For \<open>e0\<close> (bit 0) the sources give two accounts: the signature has one basis
  vector of square 0, and pga.hpp calls \<open>e01\<close>, \<open>e02\<close>, \<open>e03\<close> the ideal lines; the
  note above \<open>pga_metric\<close> says \<open>e0^2 := 1\<close>. The square of \<open>e0\<close> is therefore a
  parameter, and every result on the algebra below is proved for both values.
\<close>

definition basis_square :: "int list \<Rightarrow> nat \<Rightarrow> int" where
  "basis_square g i = (if i < length g then g ! i else 0)"

definition pga_squares :: "int \<Rightarrow> int list" where
  "pga_squares e0_square = [e0_square, 1, 1, 1]"

text \<open>The basis vectors of a blade, in increasing order, and its grade.\<close>

definition blade_bits :: "8 word \<Rightarrow> nat list" where
  "blade_bits b = filter (bit b) [0..<8]"

definition grade :: "8 word \<Rightarrow> nat" where
  "grade b = length (blade_bits b)"

text \<open>
  The product of two blades: the basis vectors are brought into order, one sign change
  for each pair that is out of order, and each vector common to both contributes its
  square.
\<close>

definition swaps :: "8 word \<Rightarrow> 8 word \<Rightarrow> nat" where
  "swaps a b =
     length (filter (\<lambda>(i, j). j < i) (List.product (blade_bits a) (blade_bits b)))"

definition blade_product :: "int list \<Rightarrow> 8 word \<Rightarrow> 8 word \<Rightarrow> int \<times> 8 word" where
  "blade_product g a b =
     ((if even (swaps a b) then 1 else - 1) *
        prod_list (map (basis_square g) (blade_bits (a AND b))),
      a XOR b)"

section \<open>The symbolic engine\<close>

text \<open>
  Modelled from the spec: the engine (expression.hpp, engine.hpp: the operations on
  multivectors, their simplification and \<open>compute\<close>) is not among the sources. The
  definitions follow sections 4.2 to 4.4 of the spec on a multivector whose offsets are
  resolved: a list of terms, each a blade with its monomials, each monomial a rational
  coefficient with its indeterminates \<open>(id, exponent)\<close>.
\<close>

type_synonym factor = "32 word \<times> rat"
type_synonym monomial = "rat \<times> factor list"
type_synonym sterm = "8 word \<times> monomial list"

definition mon_expand :: "mv \<Rightarrow> mon_t \<Rightarrow> monomial" where
  "mon_expand m mo = (q mo, map (\<lambda>i. (ind_id i, ind_degree i)) (mon_inds m mo))"

definition term_mons :: "mv \<Rightarrow> term_t \<Rightarrow> mon_t list" where
  "term_mons m t = take (term_count t) (drop (mon_offset t) (mons m))"

definition expand :: "mv \<Rightarrow> sterm list" where
  "expand m = map (\<lambda>t. (element t, map (mon_expand m) (term_mons m t))) (terms m)"

text \<open>
  Spec 4.2: multiplying two monomials multiplies the coefficients and concatenates the
  indeterminate lists; where an id appears in both, the multiplicities add.
\<close>

fun add_factor :: "factor \<Rightarrow> factor list \<Rightarrow> factor list" where
  "add_factor (i, d) [] = [(i, d)]"
| "add_factor (i, d) ((j, e) # fs) =
     (if i = j then (j, e + d) # fs else (j, e) # add_factor (i, d) fs)"

definition mul_factors :: "factor list \<Rightarrow> factor list \<Rightarrow> factor list" where
  "mul_factors fs gs = foldl (\<lambda>acc f. add_factor f acc) fs gs"

definition mul_mon :: "monomial \<Rightarrow> monomial \<Rightarrow> monomial" where
  "mul_mon m n = (fst m * fst n, mul_factors (snd m) (snd n))"

text \<open>
  Spec 4.3: (a) terms are grouped by blade; (b) under a blade, monomials with identical
  indeterminate sets have their coefficients summed; (c) monomials of coefficient zero
  and blades left without a monomial are dropped; (d) the terms are stably partitioned by
  grade.
\<close>

definition same_inds :: "factor list \<Rightarrow> factor list \<Rightarrow> bool" where
  "same_inds fs gs \<longleftrightarrow>
     list_all (\<lambda>f. List.member gs f) fs \<and> list_all (\<lambda>g. List.member fs g) gs"

fun add_mon :: "monomial \<Rightarrow> monomial list \<Rightarrow> monomial list" where
  "add_mon m [] = [m]"
| "add_mon m (n # ns) =
     (if same_inds (snd m) (snd n) then (fst n + fst m, snd n) # ns else n # add_mon m ns)"

definition merge_mons :: "monomial list \<Rightarrow> monomial list" where
  "merge_mons ms = foldl (\<lambda>acc m. add_mon m acc) [] ms"

fun add_term :: "sterm \<Rightarrow> sterm list \<Rightarrow> sterm list" where
  "add_term t [] = [t]"
| "add_term t (u # us) =
     (if fst t = fst u then (fst u, snd u @ snd t) # us else u # add_term t us)"

definition group_blades :: "sterm list \<Rightarrow> sterm list" where
  "group_blades ts = foldl (\<lambda>acc t. add_term t acc) [] ts"

definition live_mons :: "monomial list \<Rightarrow> monomial list" where
  "live_mons ms = filter (\<lambda>m. fst m \<noteq> 0) ms"

definition canonical :: "sterm list \<Rightarrow> sterm list" where
  "canonical ts =
     sort_key (\<lambda>t. grade (fst t))
       (filter (\<lambda>t. snd t \<noteq> [])
          (map (\<lambda>t. (fst t, live_mons (merge_mons (snd t)))) (group_blades ts)))"

text \<open>
  Spec 4.4, geometric product: every pair of terms, one of each operand, gives the blade
  and the sign of the blade product; the monomials are multiplied pairwise with the sign
  in the coefficient; the result is accumulated by blade and made canonical. Sum: the
  terms of both operands together, made canonical.
\<close>

definition term_product :: "int list \<Rightarrow> sterm \<Rightarrow> sterm \<Rightarrow> sterm" where
  "term_product g t u =
     (let sb = blade_product g (fst t) (fst u) in
      (snd sb,
       concat (map (\<lambda>m. map (\<lambda>n. (of_int (fst sb) * fst (mul_mon m n), snd (mul_mon m n)))
                          (snd u)) (snd t))))"

definition geometric_product :: "int list \<Rightarrow> sterm list \<Rightarrow> sterm list \<Rightarrow> sterm list" where
  "geometric_product g A B = canonical (concat (map (\<lambda>t. map (term_product g t) B) A))"

definition mv_sum :: "sterm list \<Rightarrow> sterm list \<Rightarrow> sterm list" where
  "mv_sum A B = canonical (A @ B)"

text \<open>
  The unit basis blade \<open>gal::e<A, b>\<close>: the blade \<open>b\<close> with the coefficient 1. The
  pseudoscalar \<open>ps\<close> of pga.hpp is the unit blade \<open>0b1111\<close>.
\<close>

definition basis_element :: "8 word \<Rightarrow> sterm list" where
  "basis_element b = [(b, [(1, [])])]"

text \<open>
  Spec 4.4, evaluation: each surviving blade is an output slot, whose value is the sum
  of its monomials, each the coefficient times its inputs. The input of an id is its
  entry in the data of the entity anchored at the base id. An exponent that is not a
  natural number, or an id outside the data, is outside the model (\<open>None\<close>).
\<close>

definition inputs :: "32 word \<Rightarrow> fp list \<Rightarrow> 32 word \<Rightarrow> fp option" where
  "inputs idn ds k =
     (if unat (k - idn) < length ds then Some (ds ! unat (k - idn)) else None)"

fun fpow :: "fp \<Rightarrow> nat \<Rightarrow> fp" where
  "fpow x 0 = Fin 1"
| "fpow x (Suc n) = fmul x (fpow x n)"

definition factor_value :: "(32 word \<Rightarrow> fp option) \<Rightarrow> factor \<Rightarrow> fp option" where
  "factor_value env f =
     (case env (fst f) of
        None \<Rightarrow> None
      | Some x \<Rightarrow>
          if snd f = of_nat (nat \<lfloor>snd f\<rfloor>) then Some (fpow x (nat \<lfloor>snd f\<rfloor>)) else None)"

definition times_factor ::
  "(32 word \<Rightarrow> fp option) \<Rightarrow> fp option \<Rightarrow> factor \<Rightarrow> fp option" where
  "times_factor env acc f =
     (case acc of
        None \<Rightarrow> None
      | Some a \<Rightarrow> (case factor_value env f of None \<Rightarrow> None | Some x \<Rightarrow> Some (fmul a x)))"

definition mon_value :: "(32 word \<Rightarrow> fp option) \<Rightarrow> monomial \<Rightarrow> fp option" where
  "mon_value env m = foldl (times_factor env) (Some (Fin (of_rat (fst m)))) (snd m)"

definition plus_mon ::
  "(32 word \<Rightarrow> fp option) \<Rightarrow> fp option \<Rightarrow> monomial \<Rightarrow> fp option" where
  "plus_mon env acc m =
     (case acc of
        None \<Rightarrow> None
      | Some a \<Rightarrow> (case mon_value env m of None \<Rightarrow> None | Some x \<Rightarrow> Some (fadd a x)))"

definition term_value :: "(32 word \<Rightarrow> fp option) \<Rightarrow> sterm \<Rightarrow> fp option" where
  "term_value env t = foldl (plus_mon env) (Some (Fin 0)) (snd t)"

fun option_list :: "'a option list \<Rightarrow> 'a list option" where
  "option_list [] = Some []"
| "option_list (x # xs) =
     (case x of
        None \<Rightarrow> None
      | Some y \<Rightarrow> (case option_list xs of None \<Rightarrow> None | Some ys \<Rightarrow> Some (y # ys)))"

definition evaluate :: "(32 word \<Rightarrow> fp option) \<Rightarrow> sterm list \<Rightarrow> entity option" where
  "evaluate env ts =
     (case option_list (map (term_value env) ts) of
        None \<Rightarrow> None
      | Some vs \<Rightarrow> Some \<lparr>elements = map fst ts, data_e = vs\<rparr>)"

section \<open>Computations of pga.hpp on the engine\<close>

text \<open>
  A point taken through its multivector: \<open>point::ie\<close> anchored at \<open>idn\<close>, evaluated on
  the data of the point, and converted back by \<open>point(entity)\<close>.
\<close>

definition point_via_multivector :: "32 word \<Rightarrow> point \<Rightarrow> point option" where
  "point_via_multivector idn pt =
     (case evaluate (inputs idn (point_data pt)) (canonical (expand (point_ie idn))) of
        None \<Rightarrow> None
      | Some en \<Rightarrow> point_of_entity en)"

text \<open>The same journey for a line, through \<open>line::ie\<close> and \<open>line(entity)\<close>.\<close>

definition line_via_multivector :: "32 word \<Rightarrow> line \<Rightarrow> line option" where
  "line_via_multivector idn l =
     (case evaluate (inputs idn (line_data l)) (canonical (expand (line_ie idn))) of
        None \<Rightarrow> None
      | Some en \<Rightarrow> line_of_entity en)"

text \<open>
  \<open>compute\<close> binds its entities to consecutive ranges of ids from 0, in the order of
  its arguments, and evaluates the expression on their data.

  \<open>compute([](auto l) { return l * l; }, l)\<close> of \<open>exp\<close> and \<open>log\<close>: the product of
  \<open>line::ie\<close> with itself, evaluated on the data of the line.
\<close>

definition line_square :: "int list \<Rightarrow> 32 word \<Rightarrow> sterm list" where
  "line_square g idn = geometric_product g (expand (line_ie idn)) (expand (line_ie idn))"

definition compute_line_square :: "int list \<Rightarrow> 32 word \<Rightarrow> line \<Rightarrow> entity option" where
  "compute_line_square g idn l = evaluate (inputs idn (line_data l)) (line_square g idn)"

definition motor_tags :: "8 word list" where
  "motor_tags = [0, 3, 5, 6, 9, 10, 12, 15]"

text \<open>
  The first steps of \<open>exp\<close>: \<open>l2 = l * l\<close>, \<open>s = -l2[0]\<close>, \<open>u = sqrt(s)\<close>,
  \<open>v = -l2[1] / (2 * u)\<close>.
\<close>

definition exp_decomposition :: "int list \<Rightarrow> line \<Rightarrow> (fp \<times> fp) option" where
  "exp_decomposition g l =
     (case compute_line_square g 0 l of
        None \<Rightarrow> None
      | Some l2 \<Rightarrow>
          (let s = fneg (data_e l2 ! 0);
               u = fsqrt s;
               v = fdiv (fneg (data_e l2 ! 1)) (fmul (Fin 2) u)
           in Some (u, v)))"



text \<open>
  The whole of \<open>exp\<close>. \<open>l2[1]\<close> has been overwritten with \<open>v\<close> when \<open>inv_norm\<close> is
  built. \<open>real\<close>, \<open>ideal\<close> and \<open>inv_norm\<close> have the type of \<open>l2\<close>, an entity on the
  blades of \<open>l * l\<close>; the last \<open>compute\<close> evaluates
  \<open>real + ideal * inv_norm * l\<close> on the four entities.
\<close>

definition exp_pga :: "int list \<Rightarrow> line \<Rightarrow> entity option" where
  "exp_pga g l =
     (case compute_line_square g 0 l of
        None \<Rightarrow> None
      | Some l2 \<Rightarrow>
          (let s = fneg (data_e l2 ! 0);
               u = fsqrt s;
               v = fdiv (fneg (data_e l2 ! 1)) (fmul (Fin 2) u);
               inv_norm = [fdiv (Fin 1) u, fdiv (fneg v) s];
               cos_u = fcos u;
               sin_u = fsin u;
               real_part = [cos_u, fmul (fneg v) sin_u];
               ideal_part = [sin_u, fmul v cos_u];
               E = elements l2;
               n = of_nat (entity_ind_count E)
           in evaluate (inputs 0 (real_part @ ideal_part @ inv_norm @ line_data l))
                (mv_sum (expand (entity_ie E 0))
                   (geometric_product g
                      (geometric_product g (expand (entity_ie E n))
                         (expand (entity_ie E (2 * n))))
                      (expand (line_ie (3 * n)))))))"





section \<open>The accessor select\<close>

lemma select_loop_found:
  assumes "n < length els" and "els ! n = e" and "\<forall>j<n. els ! j \<noteq> e"
    and "n < 256" and "k \<le> n"
  shows "select_loop els ds e (of_nat k) = Some (ds ! n)"
  using assms(5)
proof (induction "n - k" arbitrary: k)
  case 0
  then have kn: "k = n" by simp
  have u: "unat (of_nat n :: 8 word) = n"
    using assms(4) by (simp add: unat_of_nat)
  show ?case
    unfolding kn by (subst select_loop.simps) (use assms(1,2) u in simp)
next
  case (Suc d)
  then have lt: "k < n" by simp
  then have u: "unat (of_nat k :: 8 word) = k"
    using assms(4) by (simp add: unat_of_nat)
  have step: "select_loop els ds e (of_nat (Suc k)) = Some (ds ! n)"
    using Suc lt by (intro Suc.hyps(1)) simp_all
  have ne: "els ! k \<noteq> e" using assms(3) lt by blast
  have nl: "k \<noteq> length els" using lt assms(1) by simp
  show ?case
    by (subst select_loop.simps) (use u ne nl step in \<open>simp add: add.commute\<close>)
qed

lemma select_loop_absent:
  assumes "e \<notin> set els" and "length els < 256" and "k \<le> length els"
  shows "select_loop els ds e (of_nat k) = Some (Fin 0)"
  using assms(3)
proof (induction "length els - k" arbitrary: k)
  case 0
  then have kn: "k = length els" by simp
  have u: "unat (of_nat (length els) :: 8 word) = length els"
    using assms(2) by (simp add: unat_of_nat)
  show ?case
    unfolding kn by (subst select_loop.simps) (use u in simp)
next
  case (Suc d)
  then have lt: "k < length els" by simp
  then have u: "unat (of_nat k :: 8 word) = k"
    using assms(2) by (simp add: unat_of_nat)
  have step: "select_loop els ds e (of_nat (Suc k)) = Some (Fin 0)"
    using Suc lt by (intro Suc.hyps(1)) simp_all
  have ne: "els ! k \<noteq> e" using assms(1) lt nth_mem by metis
  show ?case
    by (subst select_loop.simps) (use u ne lt step in \<open>simp add: add.commute\<close>)
qed

lemma distinct_tags_length:
  fixes els :: "8 word list"
  assumes "distinct els"
  shows "length els \<le> 256"
proof -
  have "card (set els) \<le> card (UNIV :: 8 word set)"
    by (rule card_mono) simp_all
  then show ?thesis
    using assms by (simp add: distinct_card card_word)
qed

lemma distinct_tags_absent_length:
  fixes els :: "8 word list"
  assumes "distinct els" and "e \<notin> set els"
  shows "length els < 256"
proof -
  have "set els \<subseteq> UNIV - {e}" using assms(2) by blast
  then have "card (set els) \<le> card (UNIV - {e} :: 8 word set)"
    by (intro card_mono) simp_all
  also have "\<dots> = 255" by (simp add: card_Diff_singleton card_word)
  finally show ?thesis
    using assms(1) by (simp add: distinct_card)
qed

text \<open>
  The premise on the tags matters: on 256 tags none of which is \<open>e\<close> the counter
  wraps from 255 to 0 before it can equal \<open>elements.size()\<close>, and the loop never
  returns.
\<close>

lemma select_loop_never_returns:
  assumes "select_loop els ds e i = Some y"
  shows "\<not> (length els = 256 \<and> e \<notin> set els)"
proof (rule select_loop.raw_induct
    [where P = "\<lambda>els ds e i y. \<not> (length els = 256 \<and> e \<notin> set els)", OF _ assms])
  fix f :: "8 word list \<Rightarrow> fp list \<Rightarrow> 8 word \<Rightarrow> 8 word \<Rightarrow> fp option"
    and els ds e and i :: "8 word" and y
  assume IH: "\<And>els ds e i y. f els ds e i = Some y \<Longrightarrow> \<not> (length els = 256 \<and> e \<notin> set els)"
    and eq: "(if unat i \<noteq> length els
              then if els ! unat i = e then Some (ds ! unat i) else f els ds e (i + 1)
              else Some (Fin 0)) = Some y"
  show "\<not> (length els = 256 \<and> e \<notin> set els)"
  proof
    assume h: "length els = 256 \<and> e \<notin> set els"
    have lt: "unat i < 256" using unsigned_less [of i] by simp
    then have ne: "unat i \<noteq> length els" using h by simp
    have "els ! unat i \<in> set els" using lt h by simp
    then have "els ! unat i \<noteq> e" using h by metis
    with eq ne have "f els ds e (i + 1) = Some y" by simp
    from IH [OF this] h show False by blast
  qed
qed

lemma select_wraps_forever:
  "select \<lparr>elements = replicate 256 0, data_e = replicate 256 (Fin 0)\<rparr> 1 = None"
proof (cases "select \<lparr>elements = replicate 256 0, data_e = replicate 256 (Fin 0)\<rparr> 1")
  case None
  then show ?thesis .
next
  case (Some y)
  then have "select_loop (replicate 256 0) (replicate 256 (Fin 0)) 1 0 = Some y"
    by (simp add: select_def)
  from select_loop_never_returns [OF this] show ?thesis by simp
qed

text \<open>
  C9. For an entity whose blade tags are distinct (or that has fewer than 256 tags),
  \<open>select(e)\<close> returns: it yields the stored coefficient \<open>data_[i]\<close> of the first
  position \<open>i\<close> whose tag is \<open>e\<close>, and the value-initialised zero when \<open>e\<close> is not
  among the tags. The accessor is a function of the entity alone and returns a value, so
  the entity's data is untouched.
\<close>

theorem select_first_match_or_zero:
  assumes "distinct (elements en) \<or> length (elements en) < 256"
  shows "(e \<notin> set (elements en) \<longrightarrow> select en e = Some (Fin 0)) \<and>
         (\<forall>i. i < length (elements en) \<and> elements en ! i = e \<and>
               (\<forall>j<i. elements en ! j \<noteq> e) \<longrightarrow> select en e = Some (data_e en ! i))"
proof (intro conjI impI allI)
  assume a: "e \<notin> set (elements en)"
  have "length (elements en) < 256"
    using assms a distinct_tags_absent_length by blast
  then have "select_loop (elements en) (data_e en) e (of_nat 0) = Some (Fin 0)"
    using a by (intro select_loop_absent) simp_all
  then show "select en e = Some (Fin 0)" by (simp add: select_def)
next
  fix i
  assume h: "i < length (elements en) \<and> elements en ! i = e \<and>
             (\<forall>j<i. elements en ! j \<noteq> e)"
  have "length (elements en) \<le> 256"
    using assms distinct_tags_length by fastforce
  then have "i < 256" using h by simp
  then have "select_loop (elements en) (data_e en) e (of_nat 0) = Some (data_e en ! i)"
    using h by (intro select_loop_found) simp_all
  then show "select en e = Some (data_e en ! i)" by (simp add: select_def)
qed

theorem select_first_match_or_zero_witness:
  "select \<lparr>elements = [0, 3, 5], data_e = [Fin 7, Fin 8, Fin 9]\<rparr> 4 = Some (Fin 0) \<and>
   select \<lparr>elements = [0, 3, 5], data_e = [Fin 7, Fin 8, Fin 9]\<rparr> 3 = Some (Fin 8)"
proof -
  let ?en = "\<lparr>elements = [0, 3, 5], data_e = [Fin 7, Fin 8, Fin 9]\<rparr>"
  have d: "distinct (elements ?en) \<or> length (elements ?en) < 256" by simp
  have a: "select ?en 4 = Some (Fin 0)"
    using select_first_match_or_zero [OF d, of 4] by simp
  have "1 < length (elements ?en) \<and> elements ?en ! 1 = 3 \<and>
        (\<forall>j<1. elements ?en ! j \<noteq> 3)" by simp
  then have b: "select ?en 3 = Some (data_e ?en ! 1)"
    using select_first_match_or_zero [OF d, of 3] by blast
  from a b show ?thesis by simp
qed

section \<open>The indeterminates an indeterminate expression references\<close>

lemma take_one_drop:
  "k < length xs \<Longrightarrow> take (Suc 0) (drop k xs) = [xs ! k]"
  by (simp add: Cons_nth_drop_Suc [symmetric])

lemma construct_mon_inds:
  assumes "k < n"
  shows "mon_inds (construct_ie idn [0..<n] Es) (mk_mon 1 1 1 k) = [mk_ind (idn + of_nat k) 1]"
  using assms by (simp add: mon_inds_def construct_ie_def Let_def take_one_drop)

lemma construct_referenced_ids:
  "referenced_ids (construct_ie idn [0..<n] Es) = id_range idn n"
proof -
  have m: "mons (construct_ie idn [0..<n] Es) = map (\<lambda>N. mk_mon 1 1 1 N) [0..<n]"
    by (simp add: construct_ie_def Let_def)
  have "referenced_ids (construct_ie idn [0..<n] Es)
        = (\<Union>k\<in>{0..<n}. ind_id ` set (mon_inds (construct_ie idn [0..<n] Es) (mk_mon 1 1 1 k)))"
    unfolding referenced_ids_def m by auto
  also have "\<dots> = (\<Union>k\<in>{0..<n}. {idn + of_nat k})"
    by (intro SUP_cong refl) (use construct_mon_inds in simp)
  also have "\<dots> = id_range idn n"
    by (auto simp: id_range_def)
  finally show ?thesis .
qed

lemma construct_ranges_within: "ranges_within (construct_ie idn [0..<n] Es)"
  by (auto simp: ranges_within_def construct_ie_def Let_def list_all_iff)

text \<open>The generic entity, the plane, the point, the vector and the line reference
  exactly their contiguous ids.\<close>

lemma entity_ie_ids: "ie_ids_ok (entity_ie Es idn) idn (entity_ind_count Es)"
  by (simp add: ie_ids_ok_def entity_ie_def entity_ind_count_def
      construct_referenced_ids construct_ranges_within)

lemma plane_ie_ids: "ie_ids_ok (plane_ie idn) idn plane_ind_count"
  by (simp add: ie_ids_ok_def plane_ie_def plane_ind_count_def
      construct_referenced_ids construct_ranges_within)

lemma point_ie_ids: "ie_ids_ok (point_ie idn) idn point_ind_count"
  by (auto simp: ie_ids_ok_def referenced_ids_def point_ie_def mon_inds_def id_range_def
      point_ind_count_def ranges_within_def upt_conv_Cons)

lemma vector_ie_ids: "ie_ids_ok (vector_ie idn) idn vector_ind_count"
  by (auto simp: ie_ids_ok_def referenced_ids_def vector_ie_def mon_inds_def id_range_def
      vector_ind_count_def ranges_within_def upt_conv_Cons)

lemma line_ie_ids: "ie_ids_ok (line_ie idn) idn line_ind_count"
  by (auto simp: ie_ids_ok_def referenced_ids_def line_ie_def mon_inds_def id_range_def
      line_ind_count_def ranges_within_def upt_conv_Cons)

lemma rotor_referenced_ids:
  "referenced_ids (rotor_ie idn) = {idn, idn + 1, idn + 3, idn + 4}"
  by (auto simp: referenced_ids_def rotor_ie_def mon_inds_def)

lemma translator_referenced_ids:
  "referenced_ids (translator_ie idn) = {idn, idn + 1}"
  by (auto simp: referenced_ids_def translator_ie_def mon_inds_def)

lemma scalar_referenced_ids: "referenced_ids (scalar_ie idn) = {}"
  by (simp add: referenced_ids_def scalar_ie_def mon_inds_def)

lemma rotor_id_range:
  "id_range idn rotor_ind_count = {idn, idn + 1, idn + 2, idn + 3, idn + 4}"
  by (auto simp: id_range_def rotor_ind_count_def upt_conv_Cons)

lemma translator_id_range:
  "id_range idn translator_ind_count = {idn, idn + 1, idn + 2, idn + 3}"
  by (auto simp: id_range_def translator_ind_count_def upt_conv_Cons)

lemma scalar_id_range: "id_range idn scalar_ind_count = {idn}"
  by (simp add: id_range_def scalar_ind_count_def)

text \<open>
  C2. The claim holds for the generic entity, the plane, the point, the vector and the
  line (lemmas above), and fails for three adapters. The monomials of \<open>rotor::ie(id)\<close>
  reach the ids \<open>id, id + 1, id + 3, id + 4\<close> and never \<open>id + 2\<close> (the field \<open>x\<close>);
  those of \<open>translator::ie(id)\<close> reach \<open>id\<close> and \<open>id + 1\<close> only, never \<open>id + 2\<close> and
  \<open>id + 3\<close> (the fields \<open>y\<close> and \<open>z\<close>); the single monomial of \<open>scalar::ie(id)\<close> has
  count 0 and reaches no id at all.
\<close>

theorem rotor_translator_scalar_ie_miss_ids:
  "referenced_ids (rotor_ie idn) = {idn, idn + 1, idn + 3, idn + 4} \<and>
   idn + 2 \<in> id_range idn rotor_ind_count \<and>
   idn + 2 \<notin> referenced_ids (rotor_ie idn) \<and>
   \<not> ie_ids_ok (rotor_ie idn) idn rotor_ind_count \<and>
   referenced_ids (translator_ie idn) = {idn, idn + 1} \<and>
   idn + 3 \<in> id_range idn translator_ind_count \<and>
   idn + 3 \<notin> referenced_ids (translator_ie idn) \<and>
   \<not> ie_ids_ok (translator_ie idn) idn translator_ind_count \<and>
   referenced_ids (scalar_ie idn) = {} \<and>
   id_range idn scalar_ind_count = {idn} \<and>
   \<not> ie_ids_ok (scalar_ie idn) idn scalar_ind_count"
proof -
  have r: "idn + 2 \<notin> referenced_ids (rotor_ie idn)"
    by (simp add: rotor_referenced_ids)
  have t: "idn + 3 \<notin> referenced_ids (translator_ie idn)"
    by (simp add: translator_referenced_ids)
  have r': "idn + 2 \<in> id_range idn rotor_ind_count"
    by (simp add: rotor_id_range)
  have t': "idn + 3 \<in> id_range idn translator_ind_count"
    by (simp add: translator_id_range)
  have nr: "\<not> ie_ids_ok (rotor_ie idn) idn rotor_ind_count"
    using r r' unfolding ie_ids_ok_def by blast
  have nt: "\<not> ie_ids_ok (translator_ie idn) idn translator_ind_count"
    using t t' unfolding ie_ids_ok_def by blast
  have ns: "\<not> ie_ids_ok (scalar_ie idn) idn scalar_ind_count"
    by (simp add: ie_ids_ok_def scalar_referenced_ids scalar_id_range)
  show ?thesis
    using r t r' t' nr nt ns
    by (simp only: rotor_referenced_ids translator_referenced_ids scalar_referenced_ids
        scalar_id_range simp_thms)
qed

section \<open>The counters of an indeterminate expression\<close>

lemma entity_ie_counters: "mv_counters_ok (entity_ie Es idn)"
  by (simp add: mv_counters_ok_def entity_ie_def construct_ie_def Let_def)

lemma plane_ie_counters: "mv_counters_ok (plane_ie idn)"
  by (simp add: mv_counters_ok_def plane_ie_def construct_ie_def Let_def)

lemma scalar_ie_counters: "mv_counters_ok (scalar_ie idn)"
  by (simp add: mv_counters_ok_def scalar_ie_def)

lemma rotor_ie_counters: "mv_counters_ok (rotor_ie idn)"
  by (simp add: mv_counters_ok_def rotor_ie_def)

lemma translator_ie_counters: "mv_counters_ok (translator_ie idn)"
  by (simp add: mv_counters_ok_def translator_ie_def)

lemma point_ie_counters: "mv_counters_ok (point_ie idn)"
  by (simp add: mv_counters_ok_def point_ie_def)

lemma line_ie_counters: "mv_counters_ok (line_ie idn)"
  by (simp add: mv_counters_ok_def line_ie_def)

text \<open>
  C5. The counters agree with the stored arrays and fit the capacities for every adapter
  (lemmas above) but the vector: \<open>vector::ie\<close> returns an \<open>mv<algebra_t, 3, 3, 3>\<close> that
  stores three monomials and three terms under the counters \<open>mv_size{3, 4, 4}\<close>, so the
  monomial and term counters are 4, above both the stored number and the capacity 3.
\<close>

theorem vector_ie_counters_exceed:
  "n_mon (mv_sz (vector_ie idn)) = 4 \<and> length (mons (vector_ie idn)) = 3 \<and>
   n_mon (capacity (vector_ie idn)) = 3 \<and>
   n_term (mv_sz (vector_ie idn)) = 4 \<and> length (terms (vector_ie idn)) = 3 \<and>
   n_term (capacity (vector_ie idn)) = 3 \<and>
   \<not> mv_counters_ok (vector_ie idn)"
  by (simp add: mv_counters_ok_def vector_ie_def)

section \<open>Normalisation and the accessor get\<close>




text \<open>
  C8. Whatever the object holds and whatever the index is, \<open>get\<close> returns NaN on the
  rotor, translator, plane, point, vector and line, and the value-initialised zero on
  the generic entity and the scalar.
\<close>

theorem get_ignores_object_and_index:
  "rotor_get r i = NaN \<and> translator_get t i = NaN \<and> plane_get pl i = NaN \<and>
   point_get p i = NaN \<and> vector_get v i = NaN \<and> line_get l i = NaN \<and>
   entity_get en i = Fin 0 \<and> scalar_get sc i = Fin 0"
  by (simp add: rotor_get_def translator_get_def plane_get_def point_get_def vector_get_def
      line_get_def entity_get_def scalar_get_def)

section \<open>The converting constructor of the line\<close>

lemma first_match_nth:
  "length ds = length els \<Longrightarrow> n < length els \<Longrightarrow> els ! n = e \<Longrightarrow> \<forall>j<n. els ! j \<noteq> e
   \<Longrightarrow> first_match els ds e = ds ! n"
proof (induction els arbitrary: ds n)
  case Nil
  then show ?case by simp
next
  case (Cons t ts)
  then obtain d ds' where ds: "ds = d # ds'" by (cases ds) auto
  show ?case
  proof (cases n)
    case 0
    then show ?thesis using Cons.prems ds by simp
  next
    case (Suc m)
    have "t \<noteq> e" using Cons.prems(4) Suc by auto
    moreover have "first_match ts ds' e = ds' ! m"
      using Cons.prems ds Suc by (intro Cons.IH) auto
    ultimately show ?thesis using ds Suc by simp
  qed
qed

lemma first_match_absent: "e \<notin> set els \<Longrightarrow> first_match els ds e = Fin 0"
  by (induction els arbitrary: ds) auto

text \<open>On fewer than 256 tags the loop returns, with the first match or zero.\<close>

lemma select_first_match:
  assumes "length (data_e en) = length (elements en)" and "length (elements en) < 256"
  shows "select en e = Some (first_match (elements en) (data_e en) e)"
proof (cases "e \<in> set (elements en)")
  case False
  have "select_loop (elements en) (data_e en) e (of_nat 0) = Some (Fin 0)"
    using False assms(2) by (intro select_loop_absent) simp_all
  then show ?thesis using False by (simp add: select_def first_match_absent)
next
  case True
  then obtain ys zs where sp: "elements en = ys @ e # zs" "e \<notin> set ys"
    by (meson split_list_first)
  let ?n = "length ys"
  have n: "?n < length (elements en)" "elements en ! ?n = e"
    using sp by simp_all
  have before: "\<forall>j<?n. elements en ! j \<noteq> e"
    using sp by (auto simp: nth_append)
  have "select_loop (elements en) (data_e en) e (of_nat 0) = Some (data_e en ! ?n)"
    using n before assms(2) by (intro select_loop_found) simp_all
  moreover have "first_match (elements en) (data_e en) e = data_e en ! ?n"
    using assms(1) n before by (intro first_match_nth) simp_all
  ultimately show ?thesis by (simp add: select_def)
qed

text \<open>
  C10. The tags read by \<open>line(entity)\<close> differ from the blades that \<open>line::ie\<close> emits
  in the third slot: the constructor reads \<open>0b100\<close> (the vector \<open>e2\<close>) where the
  expression has \<open>0b110\<close> (\<open>e12\<close>), the tag that \<open>log\<close> selects. On an entity that
  holds the coefficients 1 to 6 on the six blades of a line, the constructor stores 0
  in its third field.
\<close>

theorem line_of_entity_reads_e2:
  "map element (terms (line_ie idn)) = [3, 5, 6, 9, 10, 12] \<and>
   line_select_tags = [3, 5, 4, 9, 10, 12] \<and>
   log_select_tags = map element (terms (line_ie idn)) \<and>
   line_select_tags \<noteq> map element (terms (line_ie idn)) \<and>
   line_of_entity \<lparr>elements = map element (terms (line_ie idn)),
                   data_e = [Fin 1, Fin 2, Fin 3, Fin 4, Fin 5, Fin 6]\<rparr>
     = Some \<lparr>dx = Fin 1, dy = Fin 2, dz = Fin 0, mx = Fin 4, my = Fin 5, mz = Fin 6\<rparr>"
proof -
  let ?en = "\<lparr>elements = [3, 5, 6, 9, 10, 12],
              data_e = [Fin 1, Fin 2, Fin 3, Fin 4, Fin 5, Fin 6]\<rparr>"
  have b: "map element (terms (line_ie idn)) = [3, 5, 6, 9, 10, 12]"
    by (simp add: line_ie_def)
  have "line_of_entity ?en
        = Some \<lparr>dx = Fin 1, dy = Fin 2, dz = Fin 0, mx = Fin 4, my = Fin 5, mz = Fin 6\<rparr>"
    by (simp add: line_of_entity_def line_select_tags_def select_first_match)
  then show ?thesis
    by (simp add: b line_select_tags_def log_select_tags_def)
qed

section \<open>Evaluating the engine\<close>

lemmas evaluate_defs =
  evaluate_def term_value_def plus_mon_def mon_value_def times_factor_def factor_value_def

lemmas canonical_defs =
  canonical_def group_blades_def merge_mons_def live_mons_def same_inds_def grade_def
  blade_bits_def upt_conv_Cons

lemmas product_defs =
  geometric_product_def term_product_def blade_product_def pga_squares_def swaps_def
  basis_square_def mul_mon_def mul_factors_def Let_def

lemmas expand_defs = expand_def term_mons_def mon_expand_def mon_inds_def

lemma fpow_two: "fpow x 2 = fmul x (fmul x (Fin 1))"
  by (simp add: numeral_2_eq_2)

lemma inputs3:
  "inputs idn [a, b, c] idn = Some a"
  "inputs idn [a, b, c] (idn + 1) = Some b"
  "inputs idn [a, b, c] (idn + 2) = Some c"
  by (simp_all add: inputs_def)

lemma inputs6:
  "inputs idn [a, b, c, d, e, f] idn = Some a"
  "inputs idn [a, b, c, d, e, f] (idn + 1) = Some b"
  "inputs idn [a, b, c, d, e, f] (idn + 2) = Some c"
  "inputs idn [a, b, c, d, e, f] (idn + 3) = Some d"
  "inputs idn [a, b, c, d, e, f] (idn + 4) = Some e"
  "inputs idn [a, b, c, d, e, f] (idn + 5) = Some f"
  by (simp_all add: inputs_def)

section \<open>The point and its multivector\<close>

lemma canonical_point_ie:
  "canonical (expand (point_ie idn)) =
     [(7, [(- 1, [(idn + 2, 1)])]), (11, [(1, [(idn + 1, 1)])]), (13, [(- 1, [(idn, 1)])]),
      (14, [(1, [])])]"
  by (simp add: canonical_defs expand_def point_ie_def term_mons_def mon_expand_def
      mon_inds_def)

lemma evaluate_point_ie:
  "evaluate (inputs idn (point_data \<lparr>point_x = Fin x, point_y = Fin y, point_z = Fin z\<rparr>))
     (canonical (expand (point_ie idn)))
   = Some \<lparr>elements = [7, 11, 13, 14], data_e = [Fin (- z), Fin y, Fin (- x), Fin 1]\<rparr>"
  unfolding canonical_point_ie
  by (simp add: evaluate_defs point_data_def inputs3)

lemma point_of_evaluated:
  "point_of_entity
     \<lparr>elements = [7, 11, 13, 14], data_e = [Fin (- z), Fin y, Fin (- x), Fin 1]\<rparr>
   = Some \<lparr>point_x = Fin x, point_y = Fin y, point_z = Fin z\<rparr>"
  by (simp add: point_of_entity_def select_first_match)

text \<open>
  C1. For all real \<open>x\<close>, \<open>y\<close>, \<open>z\<close> and every base id: the point \<open>(x, y, z)\<close>, taken
  to its multivector by \<open>point::ie\<close>, evaluated on its own data and converted back by
  \<open>point(entity)\<close>, is the point \<open>(x, y, z)\<close> again. The evaluated entity holds
  \<open>-z\<close>, \<open>y\<close>, \<open>-x\<close> and 1 on \<open>e012\<close>, \<open>e013\<close>, \<open>e023\<close>, \<open>e123\<close>, and the constructor
  divides by the 1 of \<open>e123\<close>; the equality is exact.
\<close>

theorem point_multivector_roundtrip:
  "point_via_multivector idn \<lparr>point_x = Fin x, point_y = Fin y, point_z = Fin z\<rparr>
   = Some \<lparr>point_x = Fin x, point_y = Fin y, point_z = Fin z\<rparr>"
  by (simp add: point_via_multivector_def evaluate_point_ie point_of_evaluated)

section \<open>Products of the basis vectors\<close>

text \<open>
  On this product \<open>e1\<close>, \<open>e2\<close> and \<open>e3\<close> square to the scalar 1 and distinct basis
  vectors anticommute, whatever the square of \<open>e0\<close> is; \<open>e0 * e0\<close> is the parameter
  itself: nothing when it is 0, the scalar 1 when it is 1.
\<close>

lemma basis_vector_squares:
  "geometric_product (pga_squares s0) (basis_element 2) (basis_element 2) = basis_element 0"
  "geometric_product (pga_squares s0) (basis_element 4) (basis_element 4) = basis_element 0"
  "geometric_product (pga_squares s0) (basis_element 8) (basis_element 8) = basis_element 0"
  "geometric_product (pga_squares 0) (basis_element 1) (basis_element 1) = []"
  "geometric_product (pga_squares 1) (basis_element 1) (basis_element 1) = basis_element 0"
  by (simp_all add: product_defs canonical_defs basis_element_def)

lemma basis_vectors_anticommute:
  "geometric_product (pga_squares s0) (basis_element 1) (basis_element 2) = [(3, [(1, [])])]"
  "geometric_product (pga_squares s0) (basis_element 2) (basis_element 1) = [(3, [(- 1, [])])]"
  "geometric_product (pga_squares s0) (basis_element 1) (basis_element 4) = [(5, [(1, [])])]"
  "geometric_product (pga_squares s0) (basis_element 4) (basis_element 1) = [(5, [(- 1, [])])]"
  "geometric_product (pga_squares s0) (basis_element 1) (basis_element 8) = [(9, [(1, [])])]"
  "geometric_product (pga_squares s0) (basis_element 8) (basis_element 1) = [(9, [(- 1, [])])]"
  "geometric_product (pga_squares s0) (basis_element 2) (basis_element 4) = [(6, [(1, [])])]"
  "geometric_product (pga_squares s0) (basis_element 4) (basis_element 2) = [(6, [(- 1, [])])]"
  "geometric_product (pga_squares s0) (basis_element 2) (basis_element 8) = [(10, [(1, [])])]"
  "geometric_product (pga_squares s0) (basis_element 8) (basis_element 2) = [(10, [(- 1, [])])]"
  "geometric_product (pga_squares s0) (basis_element 4) (basis_element 8) = [(12, [(1, [])])]"
  "geometric_product (pga_squares s0) (basis_element 8) (basis_element 4) = [(12, [(- 1, [])])]"
  by (simp_all add: product_defs canonical_defs basis_element_def)

section \<open>The square of a line\<close>

lemma expand_line_ie:
  "expand (line_ie idn) =
     [(3, [(1, [(idn + 3, 1)])]), (5, [(1, [(idn + 4, 1)])]), (6, [(1, [(idn + 2, 1)])]),
      (9, [(1, [(idn + 5, 1)])]), (10, [(1, [(idn + 1, 1)])]), (12, [(1, [(idn, 1)])])]"
  by (simp add: expand_defs line_ie_def)

lemma canonical_line_ie: "canonical (expand (line_ie idn)) = expand (line_ie idn)"
  unfolding expand_line_ie by (simp add: canonical_defs)

text \<open>
  On the engine, \<open>line::ie\<close> puts \<open>mx, my, dz, mz, dy, dx\<close> on the blades
  \<open>e01, e02, e12, e03, e13, e23\<close>, and \<open>line(entity)\<close> reads the blades
  \<open>e01, e02, e2, e03, e13, e23\<close> into \<open>dx, dy, dz, mx, my, mz\<close>: a line does not come
  back from its multivector.
\<close>

lemma line_multivector_roundtrip_fails:
  "line_via_multivector idn
     \<lparr>dx = Fin 1, dy = Fin 2, dz = Fin 3, mx = Fin 4, my = Fin 5, mz = Fin 6\<rparr>
   = Some \<lparr>dx = Fin 4, dy = Fin 5, dz = Fin 0, mx = Fin 6, my = Fin 2, mz = Fin 1\<rparr>"
  unfolding line_via_multivector_def canonical_line_ie
  unfolding expand_line_ie
  by (simp add: evaluate_defs line_data_def inputs6 line_of_entity_def line_select_tags_def
      select_first_match)

text \<open>
  The 36 products of the six terms. With \<open>e0\<close> of square 0 the scalar keeps the
  squares of the three coefficients on \<open>e12\<close>, \<open>e13\<close>, \<open>e23\<close>; with \<open>e0\<close> of square 1
  it keeps all six squares. The pseudoscalar has the same three mixed products in both
  cases, and the contributions to every bivector cancel.
\<close>

lemma line_square_degenerate:
  "line_square (pga_squares 0) idn =
     [(0, [(- 1, [(idn + 2, 2)]), (- 1, [(idn + 1, 2)]), (- 1, [(idn, 2)])]),
      (15, [(2, [(idn + 3, 1), (idn, 1)]), (- 2, [(idn + 4, 1), (idn + 1, 1)]),
            (2, [(idn + 2, 1), (idn + 5, 1)])])]"
  unfolding line_square_def expand_line_ie
  by (simp add: product_defs canonical_defs)

lemma line_square_positive:
  "line_square (pga_squares 1) idn =
     [(0, [(- 1, [(idn + 3, 2)]), (- 1, [(idn + 4, 2)]), (- 1, [(idn + 2, 2)]),
           (- 1, [(idn + 5, 2)]), (- 1, [(idn + 1, 2)]), (- 1, [(idn, 2)])]),
      (15, [(2, [(idn + 3, 1), (idn, 1)]), (- 2, [(idn + 4, 1), (idn + 1, 1)]),
            (2, [(idn + 2, 1), (idn + 5, 1)])])]"
  unfolding line_square_def expand_line_ie
  by (simp add: product_defs canonical_defs)





section \<open>The logarithm and the exponential of a motor\<close>

lemma expand_pair_ie:
  "expand (entity_ie [0, 15] idn) = [(0, [(1, [(idn, 1)])]), (15, [(1, [(idn + 1, 1)])])]"
  by (simp add: expand_defs entity_ie_def construct_ie_def Let_def upt_conv_Cons)






lemma exp_expression_degenerate:
  "mv_sum (expand (entity_ie [0, 15] 0))
     (geometric_product (pga_squares 0)
        (geometric_product (pga_squares 0) (expand (entity_ie [0, 15] 2))
           (expand (entity_ie [0, 15] 4)))
        (expand (line_ie 6))) =
   [(0, [(1, [(0, 1)])]),
    (3, [(1, [(2, 1), (4, 1), (9, 1)]), (- 1, [(2, 1), (5, 1), (6, 1)]),
         (- 1, [(3, 1), (4, 1), (6, 1)])]),
    (5, [(1, [(2, 1), (4, 1), (10, 1)]), (1, [(2, 1), (5, 1), (7, 1)]),
         (1, [(3, 1), (4, 1), (7, 1)])]),
    (6, [(1, [(2, 1), (4, 1), (8, 1)])]),
    (9, [(1, [(2, 1), (4, 1), (11, 1)]), (- 1, [(2, 1), (5, 1), (8, 1)]),
         (- 1, [(3, 1), (4, 1), (8, 1)])]),
    (10, [(1, [(2, 1), (4, 1), (7, 1)])]),
    (12, [(1, [(2, 1), (4, 1), (6, 1)])]), (15, [(1, [(1, 1)])])]"
  unfolding expand_line_ie expand_pair_ie
  by (simp add: product_defs canonical_defs mv_sum_def)

lemma exp_expression_positive:
  "mv_sum (expand (entity_ie [0, 15] 0))
     (geometric_product (pga_squares 1)
        (geometric_product (pga_squares 1) (expand (entity_ie [0, 15] 2))
           (expand (entity_ie [0, 15] 4)))
        (expand (line_ie 6))) =
   [(0, [(1, [(0, 1)])]),
    (3, [(1, [(2, 1), (4, 1), (9, 1)]), (1, [(3, 1), (5, 1), (9, 1)]),
         (- 1, [(2, 1), (5, 1), (6, 1)]), (- 1, [(3, 1), (4, 1), (6, 1)])]),
    (5, [(1, [(2, 1), (4, 1), (10, 1)]), (1, [(3, 1), (5, 1), (10, 1)]),
         (1, [(2, 1), (5, 1), (7, 1)]), (1, [(3, 1), (4, 1), (7, 1)])]),
    (6, [(1, [(2, 1), (4, 1), (8, 1)]), (1, [(3, 1), (5, 1), (8, 1)]),
         (- 1, [(2, 1), (5, 1), (11, 1)]), (- 1, [(3, 1), (4, 1), (11, 1)])]),
    (9, [(1, [(2, 1), (4, 1), (11, 1)]), (1, [(3, 1), (5, 1), (11, 1)]),
         (- 1, [(2, 1), (5, 1), (8, 1)]), (- 1, [(3, 1), (4, 1), (8, 1)])]),
    (10, [(1, [(2, 1), (4, 1), (7, 1)]), (1, [(3, 1), (5, 1), (7, 1)]),
          (1, [(2, 1), (5, 1), (10, 1)]), (1, [(3, 1), (4, 1), (10, 1)])]),
    (12, [(1, [(2, 1), (4, 1), (6, 1)]), (1, [(3, 1), (5, 1), (6, 1)]),
          (- 1, [(2, 1), (5, 1), (9, 1)]), (- 1, [(3, 1), (4, 1), (9, 1)])]),
    (15, [(1, [(1, 1)])])]"
  unfolding expand_line_ie expand_pair_ie
  by (simp add: product_defs canonical_defs mv_sum_def)






text \<open>
  On a finite line \<open>exp\<close> is finite: the line with \<open>dx = 1\<close> alone gives the rotor
  \<open>cos 1 + sin 1 e23\<close>.
\<close>

lemma exp_unit_line_degenerate:
  "exp_pga (pga_squares 0)
     \<lparr>dx = Fin 1, dy = Fin 0, dz = Fin 0, mx = Fin 0, my = Fin 0, mz = Fin 0\<rparr>
   = Some \<lparr>elements = motor_tags,
           data_e = [Fin (cos 1), Fin 0, Fin 0, Fin 0, Fin 0, Fin 0, Fin (sin 1), Fin 0]\<rparr>"
  unfolding exp_pga_def compute_line_square_def line_square_degenerate
  by (simp add: evaluate_defs line_data_def inputs_def fpow_two Let_def entity_ind_count_def
      exp_expression_degenerate motor_tags_def)

lemma exp_unit_line_positive:
  "exp_pga (pga_squares 1)
     \<lparr>dx = Fin 1, dy = Fin 0, dz = Fin 0, mx = Fin 0, my = Fin 0, mz = Fin 0\<rparr>
   = Some \<lparr>elements = motor_tags,
           data_e = [Fin (cos 1), Fin 0, Fin 0, Fin 0, Fin 0, Fin 0, Fin (sin 1), Fin 0]\<rparr>"
  unfolding exp_pga_def compute_line_square_def line_square_positive
  by (simp add: evaluate_defs line_data_def inputs_def fpow_two Let_def entity_ind_count_def
      exp_expression_positive motor_tags_def)


end
